theory Spec2Isabelle
  imports Complex_Main "HOL-Library.Sublist" "HOL-Library.Multiset"
begin

section \<open>Strings\<close>

text \<open>
  The collector works on Python \<open>str\<close> values. They are modelled as \<open>string\<close>
  (lists of 8-bit characters); of these only the ASCII letters have case, so
  \<open>str.lower()\<close> maps \<open>A..Z\<close> to \<open>a..z\<close> and leaves every other character alone.
\<close>

definition lower_char :: "char \<Rightarrow> char" where
  "lower_char c =
     (case map_of (zip ''ABCDEFGHIJKLMNOPQRSTUVWXYZ'' ''abcdefghijklmnopqrstuvwxyz'') c of
        Some d \<Rightarrow> d
      | None \<Rightarrow> c)"

definition lower :: "string \<Rightarrow> string" where
  "lower s = map lower_char s"

text \<open>\<open>starts_with p t\<close>: the text \<open>t\<close> begins with the pattern \<open>p\<close>.\<close>

fun starts_with :: "string \<Rightarrow> string \<Rightarrow> bool" where
  "starts_with [] t = True"
| "starts_with (p # ps) [] = False"
| "starts_with (p # ps) (c # cs) = (p = c \<and> starts_with ps cs)"

text \<open>\<open>str_in s t\<close> is Python's \<open>s in t\<close> on strings: \<open>s\<close> occurs in \<open>t\<close> as a
  contiguous substring (the empty string occurs in every string).\<close>

fun str_in :: "string \<Rightarrow> string \<Rightarrow> bool" where
  "str_in s [] = (s = [])"
| "str_in s (c # cs) = (starts_with s (c # cs) \<or> str_in s cs)"

text \<open>\<open>url.rstrip('/')\<close>: all trailing slashes removed.\<close>

definition rstrip_slash :: "string \<Rightarrow> string" where
  "rstrip_slash s = rev (dropWhile (\<lambda>c. c = CHR ''/'') (rev s))"

text \<open>The f-string \<open>f"{a} {b}"\<close>.\<close>

definition join_space :: "string \<Rightarrow> string \<Rightarrow> string" where
  "join_space a b = a @ '' '' @ b"

section \<open>Configuration of the collector\<close>

text \<open>\<open>self.luxury_keywords\<close>, in the order of the source.\<close>

definition luxury_keywords :: "string list" where
  "luxury_keywords =
    [''luxury'', ''jewellery'', ''fine jewellery'', ''craftsmanship'',
     ''jewelry'', ''diamond'', ''engagement ring'', ''wedding ring'',
     ''fashion'', ''accessories'', ''watches'', ''timepiece'',
     ''necklace'', ''bracelet'', ''earrings'', ''pendant'', ''brooch'',
     ''gold'', ''platinum'', ''silver'', ''emerald'', ''sapphire'', ''ruby'',
     ''cartier'', ''tiffany'', ''bulgari'', ''chanel'', ''dior'', ''van cleef'',
     ''graff'', ''harry winston'', ''chopard'', ''piaget'', ''boucheron'',
     ''red carpet'', ''celebrity'', ''haute couture'', ''collection'',
     ''launch'', ''collaboration'', ''limited edition'', ''auction'',
     ''investment'', ''trends'', ''style'', ''fashion week'', ''royal'', ''royals'',
     ''Luxury sector'', ''Luxury marketing trends'', ''Lab grown diamonds'',
     ''Diamond price'', ''Gold price'', ''jewels'']"

section \<open>Stage 2 scoring: \<open>calculate_relevance_score\<close>\<close>

text \<open>
  Scores are Python floats. They are modelled as reals: every sum the loop forms is a
  multiple of \<open>0.5\<close> far below \<open>2^53\<close> and therefore exact in binary floating point;
  only the two bonus multiplications round, and rounding is monotone.

  \<open>keyword_weight kl\<close> is the \<open>if\<close>/\<open>elif\<close> chain of the loop body, applied to
  \<open>kl = keyword.lower()\<close>. The source writes the seven category lists as literals
  in the conditions; here each is a constant named after the comment above its branch,
  with the entries as written in the source, mixed-case entries included.
\<close>

definition core_priority_keywords :: "string list" where
  "core_priority_keywords =
    [''jewellery'', ''fine jewellery'', ''craftsmanship'', ''royal'', ''royals'',
     ''fashion week'', ''jewels'']"

definition primary_jewelry_terms :: "string list" where
  "primary_jewelry_terms =
    [''jewelry'', ''diamond'', ''engagement ring'', ''wedding ring'', ''Lab grown diamonds'',
     ''Diamond price'', ''Gold price'', ''Luxury sector'', ''Luxury marketing trends'']"

definition jewelry_pieces_and_materials :: "string list" where
  "jewelry_pieces_and_materials =
    [''necklace'', ''bracelet'', ''earrings'', ''pendant'', ''brooch'',
     ''gold'', ''platinum'', ''silver'', ''emerald'', ''sapphire'', ''ruby'']"

definition premium_luxury_brands :: "string list" where
  "premium_luxury_brands =
    [''cartier'', ''tiffany'', ''bulgari'', ''chanel'', ''dior'', ''van cleef'',
     ''graff'', ''harry winston'', ''chopard'', ''piaget'', ''boucheron'']"

definition fashion_and_luxury_terms :: "string list" where
  "fashion_and_luxury_terms =
    [''fashion'', ''accessories'', ''watches'', ''timepiece'', ''collection'',
     ''launch'', ''haute couture'', ''limited edition'']"

definition events_and_celebrity :: "string list" where
  "events_and_celebrity = [''red carpet'', ''celebrity'', ''auction'', ''luxury'']"

definition industry_terms :: "string list" where
  "industry_terms = [''collaboration'', ''investment'', ''trends'', ''style'']"

definition keyword_weight :: "string \<Rightarrow> real" where
  "keyword_weight kl =
    (if kl \<in> set core_priority_keywords then 4.0
     else if kl \<in> set primary_jewelry_terms then 5.0
     else if kl \<in> set jewelry_pieces_and_materials then 5.0
     else if kl \<in> set premium_luxury_brands then 3.5
     else if kl \<in> set fashion_and_luxury_terms then 2.5
     else if kl \<in> set events_and_celebrity then 2.0
     else if kl \<in> set industry_terms then 0.5
     else 1.0)"

text \<open>One iteration of \<open>for keyword in self.luxury_keywords\<close>, on the loop state
  \<open>(found_keywords, score)\<close>.\<close>

fun score_step :: "string \<Rightarrow> string list \<times> real \<Rightarrow> string \<Rightarrow> string list \<times> real" where
  "score_step combined_text (found_keywords, score) keyword =
     (if str_in (lower keyword) combined_text
      then (found_keywords @ [keyword], score + keyword_weight (lower keyword))
      else (found_keywords, score))"

text \<open>The whole loop: the matched keywords and the score before the bonuses.\<close>

definition score_loop :: "string \<Rightarrow> string list \<times> real" where
  "score_loop combined_text = foldl (score_step combined_text) ([], 0.0) luxury_keywords"

definition calculate_relevance_score :: "string \<Rightarrow> string \<Rightarrow> real \<times> string list" where
  "calculate_relevance_score title content =
     (let combined_text = lower (join_space title content);
          (found_keywords, score) = score_loop combined_text;
          score = (if length found_keywords > 2 then score * 1.2 else score);
          score = (if length found_keywords > 4 then score * 1.4 else score)
      in (score, found_keywords))"

section \<open>Domain validation and the URL filter\<close>

definition core_luxury_terms :: "string list" where
  "core_luxury_terms =
    [''jewellery'', ''jewelry'', ''jeweler'', ''jeweller'',
     ''diamond'', ''necklace'', ''bracelet'', ''earring'', ''ring'', ''brooch'', ''pendant'',
     ''cartier'', ''tiffany'', ''bulgari'', ''chanel'', ''van cleef'',
     ''graff'', ''harry winston'', ''chopard'', ''piaget'', ''boucheron'',
     ''gemstone'', ''emerald'', ''sapphire'', ''ruby'', ''pearl'',
     ''fine jewellery'', ''high jewelry'', ''haute joaillerie'',
     ''luxury brand'', ''luxury fashion'', ''luxury goods'']"

text \<open>\<open>any(term in combined for term in core_luxury_terms)\<close>.\<close>

definition is_luxury_relevant_content :: "string \<Rightarrow> string \<Rightarrow> bool" where
  "is_luxury_relevant_content title content =
     (let combined = lower (join_space title content);
          has_core_term = list_ex (\<lambda>term. str_in term combined) core_luxury_terms
      in has_core_term)"

definition national_jeweler_excluded :: "string list" where
  "national_jeweler_excluded =
    [''https://nationaljeweler.com/'',
     ''https://nationaljeweler.com/industry'',
     ''https://nationaljeweler.com/industry/industry-other'',
     ''https://nationaljeweler.com/industry/independents'',
     ''https://nationaljeweler.com/industry/events-awards'',
     ''https://nationaljeweler.com/industry/financials'',
     ''https://nationaljeweler.com/industry/supplier-bulletin'',
     ''https://nationaljeweler.com/industry/technology'',
     ''https://nationaljeweler.com/industry/surveys'',
     ''https://nationaljeweler.com/industry/policies-issues'',
     ''https://nationaljeweler.com/industry/crime'',
     ''https://nationaljeweler.com/industry/majors'',
     ''https://nationaljeweler.com/diamonds-gems'',
     ''https://nationaljeweler.com/diamonds-gems/diamonds-gems-other'',
     ''https://nationaljeweler.com/diamonds-gems/lab-grown'',
     ''https://nationaljeweler.com/diamonds-gems/grading'',
     ''https://nationaljeweler.com/diamonds-gems/sourcing'',
     ''https://nationaljeweler.com/style'',
     ''https://nationaljeweler.com/style/style-other'',
     ''https://nationaljeweler.com/style/trends'',
     ''https://nationaljeweler.com/style/auctions'',
     ''https://nationaljeweler.com/style/watches'',
     ''https://nationaljeweler.com/style/collections'',
     ''https://nationaljeweler.com/opinions'',
     ''https://nationaljeweler.com/opinions/editors'',
     ''https://nationaljeweler.com/opinions/columnists'']"

definition is_relevant_url :: "string \<Rightarrow> bool" where
  "is_relevant_url url =
     (let url_lower = lower url;
          url_clean = rstrip_slash url
      in if url_clean \<in> set national_jeweler_excluded \<or> url \<in> set national_jeweler_excluded
         then False
         else list_ex (\<lambda>keyword. str_in (lower keyword) url_lower) luxury_keywords)"

section \<open>Candidates and the outside world\<close>

text \<open>Time stamps (\<open>datetime\<close> values without time zone) are integers.\<close>

type_synonym datetime = int

record ArticleCandidate =
  title :: string
  url :: string
  publication :: string
  published_date :: datetime
  summary :: string
  author :: string
  relevance_score :: real
  keywords_found :: "string list"
  full_content :: string

text \<open>
  The exceptions the handlers of the source tell apart: \<open>ET.ParseError\<close>,
  \<open>UnicodeDecodeError\<close>, and any other exception.
\<close>

datatype exn = ParseError | UnicodeDecodeError | OtherError

text \<open>An \<open>xml.etree\<close> element: its tag, its text (\<open>None\<close> when it has none) and its
  children, which \<open>for child in elem\<close> iterates in order.\<close>

datatype xml = Element (tag: string) (etext: "string option") (children: "xml list")

text \<open>The HTTP response: \<open>status_code\<close>, the raw bytes \<open>content\<close>, and the property
  \<open>text\<close> (the body as decoded by the transport layer), here \<open>rtext\<close>.\<close>

record response =
  status_code :: int
  content :: string
  rtext :: "exn + string"

text \<open>What \<open>newspaper.Article.parse\<close> extracts from a page.\<close>

record article =
  art_text :: string
  art_title :: string
  art_meta_description :: string

text \<open>An entry of \<open>self.target_sources\<close>, with the keys \<open>'base_url'\<close>,
  \<open>'rss_feeds'\<close> and \<open>'sitemap_url'\<close>.\<close>

record source_info =
  info_base_url :: string
  info_rss_feeds :: "string list"
  info_sitemap_url :: "string option"

text \<open>
  Everything the collector obtains from outside is a field of \<open>world\<close>: a call that
  can raise returns \<open>Inl\<close> of the exception. The world is a snapshot: the same request
  gives the same answer during one run, and \<open>now\<close> is the one value of
  \<open>datetime.now()\<close>. Rate limiting and pauses only take time and are left out.
  \<^item> \<open>make_request\<close> is the method of that name (its argument is \<open>None\<close> when the
    source passes the text of an empty element);
  \<^item> \<open>ET_fromstring\<close> and \<open>ET_fromstring_bytes\<close> are \<open>ET.fromstring\<close> on a
    \<open>str\<close> and on \<open>bytes\<close>;
  \<^item> \<open>decode_utf8\<close>, \<open>decode_latin1\<close> are \<open>bytes.decode\<close> with \<open>'utf-8'\<close>
    and \<open>'iso-8859-1'\<close>, \<open>gzip_decompress\<close> is \<open>gzip.decompress\<close>;
  \<^item> \<open>fromisoformat\<close> and \<open>strptime_ymd\<close> are \<open>datetime.fromisoformat\<close> and
    \<open>datetime.strptime(_, '%Y-%m-%d')\<close>, each followed by \<open>.replace(tzinfo=None)\<close>;
  \<^item> \<open>parse_article url html\<close> is \<open>Article(url)\<close> with \<open>html\<close> set, parsed;
  \<^item> \<open>extract_author\<close> is the byline resolution of the source, which handles
    its own exceptions and always returns a string;
  \<^item> \<open>try_rss_feed pub feed_url\<close> is the feed reader, which handles its own
    exceptions and always returns a list of candidates.
\<close>

record world =
  make_request :: "string option \<Rightarrow> exn + response"
  ET_fromstring :: "string \<Rightarrow> exn + xml"
  ET_fromstring_bytes :: "string \<Rightarrow> exn + xml"
  decode_utf8 :: "string \<Rightarrow> exn + string"
  decode_latin1 :: "string \<Rightarrow> exn + string"
  gzip_decompress :: "string \<Rightarrow> exn + string"
  fromisoformat :: "string \<Rightarrow> exn + datetime"
  strptime_ymd :: "string \<Rightarrow> exn + datetime"
  now :: datetime
  parse_article :: "string \<Rightarrow> string \<Rightarrow> exn + article"
  extract_author :: "article \<Rightarrow> string"
  try_rss_feed :: "string \<Rightarrow> string \<Rightarrow> ArticleCandidate list"

text \<open>
  The progress messages that the properties below speak about (the other \<open>print\<close>
  calls are not recorded):
  \<^item> \<open>Sitemap_cannot_parse\<close>: \<open>"  Sitemap error: Cannot parse XML"\<close>;
  \<^item> \<open>Sitemap_error e\<close>: \<open>"  Sitemap error: {str(e)[:100]}"\<close>;
  \<^item> \<open>Stage3_found n\<close>: \<open>"  Stage 3: Found {n} articles with content score > 3.0"\<close>;
  \<^item> \<open>None_scored\<close>: \<open>"  Collected: 0 articles (none scored > 3.0)"\<close>.
\<close>

datatype message = Sitemap_cannot_parse | Sitemap_error exn | Stage3_found nat | None_scored

section \<open>The sitemap resolver\<close>

text \<open>The descendants of an element in document order, the element itself excluded.\<close>

fun descendants :: "xml \<Rightarrow> xml list" where
  "descendants (Element t x cs) = concat (map (\<lambda>c. c # descendants c) cs)"

text \<open>\<open>elem.find('.//' + name)\<close>: the first descendant with that tag.\<close>

definition find_descendant :: "string \<Rightarrow> xml \<Rightarrow> xml option" where
  "find_descendant name elem = find (\<lambda>d. tag d = name) (descendants elem)"

definition loc_tag :: string where
  "loc_tag = ''{http://www.sitemaps.org/schemas/sitemap/0.9}loc''"

definition lastmod_tag :: string where
  "lastmod_tag = ''{http://www.sitemaps.org/schemas/sitemap/0.9}lastmod''"

text \<open>\<open>lastmod_str.replace('Z', '+00:00')\<close>.\<close>

definition replace_Z :: "string \<Rightarrow> string" where
  "replace_Z s = concat (map (\<lambda>c. if c = CHR ''Z'' then ''+00:00'' else [c]) s)"

text \<open>The date of a \<open>lastmod\<close> element. Every failure inside the \<open>try\<close> (a parser
  that raises, or \<open>'T' in None\<close> for an element without text) gives \<open>datetime.now()\<close>.\<close>

definition lastmod_date :: "world \<Rightarrow> xml \<Rightarrow> datetime" where
  "lastmod_date w lastmod_elem =
     (case etext lastmod_elem of
        None \<Rightarrow> now w
      | Some lastmod_str \<Rightarrow>
          (case (if str_in ''T'' lastmod_str
                 then fromisoformat w (replace_Z lastmod_str)
                 else strptime_ymd w (take 10 lastmod_str)) of
             Inl e \<Rightarrow> now w
           | Inr d \<Rightarrow> d))"

text \<open>The body of the loop over the children of a url-set, the same in
  \<open>fetch_urls_from_sitemap\<close> and in \<open>fetch_sitemap_articles\<close>: the pair appended to
  \<open>urls\<close>, if any.\<close>

definition url_entry :: "world \<Rightarrow> xml \<Rightarrow> (string option \<times> datetime) option" where
  "url_entry w url_elem =
     (case find_descendant loc_tag url_elem of
        None \<Rightarrow> None
      | Some loc_elem \<Rightarrow>
          Some (etext loc_elem,
                case find_descendant lastmod_tag url_elem of
                  None \<Rightarrow> now w
                | Some lastmod_elem \<Rightarrow> lastmod_date w lastmod_elem))"

definition url_entries :: "world \<Rightarrow> xml \<Rightarrow> (string option \<times> datetime) list" where
  "url_entries w root_elem = List.map_filter (url_entry w) (children root_elem)"

text \<open>\<open>fetch_urls_from_sitemap\<close>: one request, one parse, one pass over the children of
  the root. The bare \<open>except\<close> turns every exception into the empty list.\<close>

definition fetch_urls_from_sitemap :: "world \<Rightarrow> string option \<Rightarrow> (string option \<times> datetime) list" where
  "fetch_urls_from_sitemap w sitemap_url =
     (case make_request w sitemap_url of
        Inl e \<Rightarrow> []
      | Inr response \<Rightarrow>
          if status_code response = 200
          then (case ET_fromstring_bytes w (content response) of
                  Inl e \<Rightarrow> []
                | Inr root_elem \<Rightarrow> url_entries w root_elem)
          else [])"

text \<open>The four decoding strategies of \<open>fetch_sitemap_articles\<close>, each the body of its
  \<open>try\<close>: the parsed root, or the exception raised.\<close>

definition strategy1 :: "world \<Rightarrow> response \<Rightarrow> exn + xml" where
  "strategy1 w response =
     (case rtext response of Inl e \<Rightarrow> Inl e | Inr xml_content \<Rightarrow> ET_fromstring w xml_content)"

definition strategy2 :: "world \<Rightarrow> response \<Rightarrow> exn + xml" where
  "strategy2 w response =
     (case decode_utf8 w (content response) of
        Inl e \<Rightarrow> Inl e | Inr xml_content \<Rightarrow> ET_fromstring w xml_content)"

definition strategy3 :: "world \<Rightarrow> response \<Rightarrow> exn + xml" where
  "strategy3 w response =
     (case decode_latin1 w (content response) of
        Inl e \<Rightarrow> Inl e | Inr xml_content \<Rightarrow> ET_fromstring w xml_content)"

definition strategy4 :: "world \<Rightarrow> response \<Rightarrow> exn + xml" where
  "strategy4 w response =
     (case gzip_decompress w (content response) of
        Inl e \<Rightarrow> Inl e
      | Inr decompressed \<Rightarrow>
          (case decode_utf8 w decompressed of
             Inl e \<Rightarrow> Inl e | Inr xml_content \<Rightarrow> ET_fromstring w xml_content))"

text \<open>\<open>except (ET.ParseError, UnicodeDecodeError)\<close>.\<close>

definition caught :: "exn \<Rightarrow> bool" where
  "caught e = (e = ParseError \<or> e = UnicodeDecodeError)"

text \<open>
  The chain of strategies. \<open>Inr (Some root)\<close>: a strategy parsed the body;
  \<open>Inr None\<close>: \<open>xml_content\<close> is still \<open>None\<close> after the fourth; \<open>Inl e\<close>: one of
  the first three raised an exception its \<open>except\<close> clause does not name, which leaves the
  chain. The fourth strategy has a bare \<open>except\<close>.
\<close>

definition decode_root :: "world \<Rightarrow> response \<Rightarrow> exn + xml option" where
  "decode_root w response =
     (case strategy1 w response of
        Inr root_elem \<Rightarrow> Inr (Some root_elem)
      | Inl e1 \<Rightarrow>
          if \<not> caught e1 then Inl e1
          else (case strategy2 w response of
                  Inr root_elem \<Rightarrow> Inr (Some root_elem)
                | Inl e2 \<Rightarrow>
                    if \<not> caught e2 then Inl e2
                    else (case strategy3 w response of
                            Inr root_elem \<Rightarrow> Inr (Some root_elem)
                          | Inl e3 \<Rightarrow>
                              if \<not> caught e3 then Inl e3
                              else (case strategy4 w response of
                                      Inr root_elem \<Rightarrow> Inr (Some root_elem)
                                    | Inl e4 \<Rightarrow> Inr None))))"

text \<open>The list \<open>urls\<close> that \<open>fetch_sitemap_articles\<close> builds from the parsed root.\<close>

definition sitemap_urls :: "world \<Rightarrow> xml \<Rightarrow> (string option \<times> datetime) list" where
  "sitemap_urls w root_elem =
     (if str_in ''sitemapindex'' (tag root_elem)
      then concat (map (\<lambda>sitemap.
                          case find_descendant loc_tag sitemap of
                            None \<Rightarrow> []
                          | Some loc_elem \<Rightarrow> fetch_urls_from_sitemap w (etext loc_elem))
                       (children root_elem))
      else if str_in ''urlset'' (tag root_elem) then url_entries w root_elem
      else [])"

text \<open>The filter by URL relevance (\<open>pub\<close> is the parameter \<open>publication\<close>). \<open>is_relevant_url(None)\<close> raises, and the
  \<open>except\<close> inside the loop skips the entry.\<close>

definition sitemap_candidate :: "string \<Rightarrow> string option \<times> datetime \<Rightarrow> ArticleCandidate option" where
  "sitemap_candidate pub entry =
     (case entry of
        (None, pub_date) \<Rightarrow> None
      | (Some u, pub_date) \<Rightarrow>
          if is_relevant_url u
          then Some \<lparr>title = '''', url = u, publication = pub, published_date = pub_date,
                     summary = '''', author = ''Unknown'', relevance_score = 0.0,
                     keywords_found = [], full_content = ''''\<rparr>
          else None)"

definition candidates_of_root :: "world \<Rightarrow> string \<Rightarrow> xml \<Rightarrow> ArticleCandidate list" where
  "candidates_of_root w pub root_elem =
     List.map_filter (sitemap_candidate pub) (sitemap_urls w root_elem)"

text \<open>\<open>fetch_sitemap_articles\<close>: the candidates returned and the messages printed.\<close>

definition fetch_sitemap_articles :: "world \<Rightarrow> string \<Rightarrow> string \<Rightarrow> ArticleCandidate list \<times> message list" where
  "fetch_sitemap_articles w pub sitemap_url =
     (case make_request w (Some sitemap_url) of
        Inl e \<Rightarrow> ([], [Sitemap_error e])
      | Inr response \<Rightarrow>
          if status_code response \<noteq> 200 then ([], [])
          else (case decode_root w response of
                  Inl e \<Rightarrow> ([], [Sitemap_error e])
                | Inr None \<Rightarrow> ([], [Sitemap_cannot_parse])
                | Inr (Some root_elem) \<Rightarrow> (candidates_of_root w pub root_elem, [])))"

section \<open>Collection per source\<close>

text \<open>\<open>try_multiple_rss_feeds\<close>: the candidates of all feeds, in the order of the feeds.\<close>

definition try_multiple_rss_feeds :: "world \<Rightarrow> string \<Rightarrow> string list \<Rightarrow> ArticleCandidate list" where
  "try_multiple_rss_feeds w pub feed_urls =
     foldl (\<lambda>all_candidates feed_url.
              let candidates = try_rss_feed w pub feed_url
              in if candidates \<noteq> [] then all_candidates @ candidates else all_candidates)
           [] feed_urls"

text \<open>One iteration of the loop that removes duplicates, on the loop state
  \<open>(unique_candidates, seen_urls)\<close>.\<close>

fun dedup_step ::
  "ArticleCandidate list \<times> string set \<Rightarrow> ArticleCandidate \<Rightarrow> ArticleCandidate list \<times> string set" where
  "dedup_step (unique_candidates, seen_urls) candidate =
     (if url candidate \<notin> seen_urls
      then (unique_candidates @ [candidate], insert (url candidate) seen_urls)
      else (unique_candidates, seen_urls))"

definition remove_duplicates :: "ArticleCandidate list \<Rightarrow> ArticleCandidate list" where
  "remove_duplicates all_candidates = fst (foldl dedup_step ([], {}) all_candidates)"

text \<open>The merged list \<open>all_candidates\<close> of \<open>collect_from_source\<close> before the duplicates
  are removed (sitemap candidates first, then feed candidates), and the messages of the
  sitemap attempt. A sitemap URL that is \<open>None\<close> or empty is not tried.\<close>

definition merged_candidates :: "world \<Rightarrow> string \<Rightarrow> source_info \<Rightarrow> ArticleCandidate list \<times> message list" where
  "merged_candidates w pub info =
     (let sitemap_tried = (case info_sitemap_url info of None \<Rightarrow> False | Some u \<Rightarrow> u \<noteq> []);
          (sitemap_candidates, log) =
             (case info_sitemap_url info of
                None \<Rightarrow> ([], [])
              | Some u \<Rightarrow> if u = [] then ([], []) else fetch_sitemap_articles w pub u);
          sitemap_succeeded = (sitemap_tried \<and> sitemap_candidates \<noteq> []);
          all_candidates = sitemap_candidates;
          should_try_rss =
            (\<not> sitemap_tried \<or> \<not> sitemap_succeeded \<or> length all_candidates < 10)
      in (if should_try_rss \<and> info_rss_feeds info \<noteq> []
          then all_candidates @ try_multiple_rss_feeds w pub (info_rss_feeds info)
          else all_candidates,
          log))"

definition collect_from_source :: "world \<Rightarrow> string \<Rightarrow> source_info \<Rightarrow> ArticleCandidate list \<times> message list" where
  "collect_from_source w pub info =
     (let (all_candidates, log) = merged_candidates w pub info
      in (remove_duplicates all_candidates, log))"

section \<open>Content stage and selection\<close>

text \<open>\<open>extract_full_content\<close>: \<open>None\<close> when the request raises or is not answered with
  status 200, when the parse raises, or when the extracted text is empty or shorter than
  150 characters; otherwise the candidate with its fields updated.\<close>

definition extract_full_content :: "world \<Rightarrow> ArticleCandidate \<Rightarrow> ArticleCandidate option" where
  "extract_full_content w candidate =
     (case make_request w (Some (url candidate)) of
        Inl e \<Rightarrow> None
      | Inr response \<Rightarrow>
          if status_code response \<noteq> 200 then None
          else (case rtext response of
                  Inl e \<Rightarrow> None
                | Inr html \<Rightarrow>
                    (case parse_article w (url candidate) html of
                       Inl e \<Rightarrow> None
                     | Inr a \<Rightarrow>
                         if art_text a = [] \<or> length (art_text a) < 150 then None
                         else
                           let candidate = candidate\<lparr>full_content := art_text a\<rparr>;
                               candidate = (if title candidate = [] \<and> art_title a \<noteq> []
                                            then candidate\<lparr>title := art_title a\<rparr>
                                            else candidate);
                               (full_score, full_keywords) =
                                  calculate_relevance_score (title candidate) (art_text a);
                               candidate = candidate\<lparr>relevance_score := full_score,
                                                      keywords_found := full_keywords\<rparr>;
                               candidate = candidate\<lparr>author := extract_author w a\<rparr>;
                               candidate = (if art_meta_description a \<noteq> []
                                               \<and> length (art_meta_description a) > length (summary candidate)
                                            then candidate\<lparr>summary := art_meta_description a\<rparr>
                                            else candidate)
                           in Some candidate)))"

text \<open>
  \<open>xs.sort(key=key, reverse=True)\<close>. Python's sort is stable; with \<open>reverse=True\<close>
  it reverses the list, sorts it stably in ascending order of the key and reverses the
  result, so that elements with equal keys keep their order. \<open>sort_key\<close> is the stable
  ascending sort.
\<close>

definition py_sort_reverse :: "('a \<Rightarrow> real) \<Rightarrow> 'a list \<Rightarrow> 'a list" where
  "py_sort_reverse key xs = rev (sort_key key (rev xs))"

text \<open>Stage 3 of \<open>collect_top_3_per_publication\<close>: the sort by relevance score and
  \<open>final_3 = publication_articles[:3]\<close>.\<close>

definition final_selection :: "ArticleCandidate list \<Rightarrow> ArticleCandidate list" where
  "final_selection publication_articles =
     take 3 (py_sort_reverse relevance_score publication_articles)"

text \<open>The body of the loop over the publications: the articles this publication adds to
  \<open>all_articles\<close>, and the messages. At most 100 candidates are downloaded.\<close>

definition collect_publication :: "world \<Rightarrow> string \<Rightarrow> source_info \<Rightarrow> ArticleCandidate list \<times> message list" where
  "collect_publication w pub info =
     (let (candidates, log) = collect_from_source w pub info
      in if candidates = [] then ([], log)
         else
           let max_downloads = min (length candidates) 100;
               publication_articles =
                 List.map_filter (extract_full_content w) (take max_downloads candidates);
               final_3 = final_selection publication_articles
           in (final_3,
               log @ (if publication_articles \<noteq> []
                      then [Stage3_found (length publication_articles)] else [])
                   @ (if final_3 \<noteq> [] then [] else [None_scored])))"

text \<open>\<open>collect_top_3_per_publication\<close>. The dictionary \<open>self.target_sources\<close> is the
  association list \<open>target_sources\<close> (one pair per key, in the order of the source).\<close>

definition collect_top_3_per_publication ::
  "world \<Rightarrow> (string \<times> source_info) list \<Rightarrow> string list option \<Rightarrow> ArticleCandidate list \<times> message list" where
  "collect_top_3_per_publication w target_sources sources_subset =
     (let sources_to_use =
            (case sources_subset of
               None \<Rightarrow> map fst target_sources
             | Some l \<Rightarrow> if l \<noteq> [] then l else map fst target_sources);
          results =
            List.map_filter
              (\<lambda>pub. case map_of target_sources pub of
                        None \<Rightarrow> None
                      | Some info \<Rightarrow> Some (collect_publication w pub info))
              sources_to_use
      in (concat (map fst results), concat (map snd results)))"

section \<open>Example inputs\<close>

text \<open>Concrete worlds and documents at which the theorems below are instantiated. In
  \<open>offline_world\<close> every request fails.\<close>

definition offline_world :: world where
  "offline_world =
     \<lparr>make_request = (\<lambda>u. Inl OtherError),
      ET_fromstring = (\<lambda>s. Inl ParseError),
      ET_fromstring_bytes = (\<lambda>b. Inl ParseError),
      decode_utf8 = (\<lambda>b. Inl UnicodeDecodeError),
      decode_latin1 = (\<lambda>b. Inr b),
      gzip_decompress = (\<lambda>b. Inl OtherError),
      fromisoformat = (\<lambda>s. Inl OtherError),
      strptime_ymd = (\<lambda>s. Inl OtherError),
      now = 1000,
      parse_article = (\<lambda>u html. Inl OtherError),
      extract_author = (\<lambda>a. ''Unknown''),
      try_rss_feed = (\<lambda>p f. [])\<rparr>"

definition ok_response :: "string \<Rightarrow> response" where
  "ok_response body = \<lparr>status_code = 200, content = body, rtext = Inr body\<rparr>"

definition loc_of :: "string \<Rightarrow> xml" where
  "loc_of u = Element loc_tag (Some u) []"

text \<open>A sitemap index and a url-set with the given locations.\<close>

definition index_of :: "string list \<Rightarrow> xml" where
  "index_of us =
     Element ''{http://www.sitemaps.org/schemas/sitemap/0.9}sitemapindex'' None
       (map (\<lambda>u. Element ''{http://www.sitemaps.org/schemas/sitemap/0.9}sitemap'' None [loc_of u]) us)"

definition urlset_of :: "string list \<Rightarrow> xml" where
  "urlset_of us =
     Element ''{http://www.sitemaps.org/schemas/sitemap/0.9}urlset'' None
       (map (\<lambda>u. Element ''{http://www.sitemaps.org/schemas/sitemap/0.9}url'' None [loc_of u]) us)"

text \<open>A site whose sitemap index refers to a second index, which refers to the url-set
  with the one page of the site.\<close>

definition nested_world :: world where
  "nested_world = offline_world
     \<lparr>make_request := (\<lambda>u.
         if u = Some ''https://example.com/sitemap.xml'' then Inr (ok_response ''top index'')
         else if u = Some ''https://example.com/sitemap-jewellery.xml''
           then Inr (ok_response ''inner index'')
         else if u = Some ''https://example.com/sitemap-jewellery-1.xml''
           then Inr (ok_response ''pages'')
         else Inl OtherError),
       ET_fromstring := (\<lambda>s.
         if s = ''top index'' then Inr (index_of [''https://example.com/sitemap-jewellery.xml''])
         else Inl ParseError),
       ET_fromstring_bytes := (\<lambda>b.
         if b = ''inner index''
           then Inr (index_of [''https://example.com/sitemap-jewellery-1.xml''])
         else if b = ''pages''
           then Inr (urlset_of [''https://example.com/jewellery/diamond-ring''])
         else Inl ParseError)\<rparr>"

text \<open>A sitemap whose transport-decoded text does not parse while its bytes, decoded as
  UTF-8, do.\<close>

definition utf8_world :: world where
  "utf8_world = offline_world
     \<lparr>make_request := (\<lambda>u.
         if u = Some ''https://example.com/sitemap.xml''
         then Inr \<lparr>status_code = 200, content = ''raw bytes'', rtext = Inr ''misdecoded''\<rparr>
         else Inl OtherError),
       decode_utf8 := (\<lambda>b. if b = ''raw bytes'' then Inr ''decoded'' else Inl UnicodeDecodeError),
       ET_fromstring := (\<lambda>s.
         if s = ''decoded''
         then Inr (urlset_of [''https://example.com/jewellery/new-collection'',
                               ''https://example.com/sport/results''])
         else Inl ParseError)\<rparr>"

text \<open>A site whose sitemap index refers to one gzip-compressed url-set. The compressed
  bytes parse neither as transport-decoded text, nor as UTF-8, nor as ISO-8859-1, nor
  directly as bytes; decompressed and decoded as UTF-8 they are the url-set with the one
  page of the site.\<close>

definition gzip_child_world :: world where
  "gzip_child_world = offline_world
     \<lparr>make_request := (\<lambda>u.
         if u = Some ''https://example.com/sitemap.xml'' then Inr (ok_response ''top index'')
         else if u = Some ''https://example.com/sitemap-1.xml.gz''
           then Inr (ok_response ''gzip bytes'')
         else Inl OtherError),
       ET_fromstring := (\<lambda>s.
         if s = ''top index'' then Inr (index_of [''https://example.com/sitemap-1.xml.gz''])
         else if s = ''xml text''
           then Inr (urlset_of [''https://example.com/jewellery/diamond-ring''])
         else Inl ParseError),
       gzip_decompress := (\<lambda>b. if b = ''gzip bytes'' then Inr ''xml bytes'' else Inl OtherError),
       decode_utf8 := (\<lambda>b. if b = ''xml bytes'' then Inr ''xml text'' else Inl UnicodeDecodeError)\<rparr>"

text \<open>A sitemap whose body no strategy can parse.\<close>

definition garbage_world :: world where
  "garbage_world = offline_world
     \<lparr>make_request := (\<lambda>u.
         if u = Some ''https://example.com/sitemap.xml'' then Inr (ok_response ''garbage'')
         else Inl OtherError)\<rparr>"

text \<open>A site with one page whose URL contains the keyword \<open>style\<close> and whose title and
  text contain no keyword at all.\<close>

definition plain_world :: world where
  "plain_world = offline_world
     \<lparr>make_request := (\<lambda>u.
         if u = Some ''https://example.com/sitemap.xml'' then Inr (ok_response ''sitemap'')
         else if u = Some ''https://example.com/style/weather'' then Inr (ok_response ''page'')
         else Inl OtherError),
       ET_fromstring := (\<lambda>s.
         if s = ''sitemap'' then Inr (urlset_of [''https://example.com/style/weather''])
         else Inl ParseError),
       parse_article := (\<lambda>u html.
         if html = ''page''
         then Inr \<lparr>art_text = replicate 150 (CHR ''x''), art_title = ''Weather'',
                   art_meta_description = ''''\<rparr>
         else Inl OtherError)\<rparr>"

definition example_source :: source_info where
  "example_source =
     \<lparr>info_base_url = ''https://example.com/'', info_rss_feeds = [],
      info_sitemap_url = Some ''https://example.com/sitemap.xml''\<rparr>"

text \<open>The candidate that the sitemap of \<open>plain_world\<close> gives.\<close>

definition weather_candidate :: ArticleCandidate where
  "weather_candidate =
     \<lparr>title = '''', url = ''https://example.com/style/weather'', publication = ''Example'',
      published_date = 1000, summary = '''', author = ''Unknown'', relevance_score = 0,
      keywords_found = [], full_content = ''''\<rparr>"

text \<open>A candidate with the given URL and score.\<close>

definition scored :: "string \<Rightarrow> real \<Rightarrow> ArticleCandidate" where
  "scored u s =
     \<lparr>title = '''', url = u, publication = ''Example'', published_date = 0, summary = '''',
      author = ''Unknown'', relevance_score = s, keywords_found = [], full_content = ''''\<rparr>"

section \<open>Auxiliary notions for the proofs\<close>

text \<open>The keywords that occur in a text, and the two bonuses as a function of the number
  of matches.\<close>

definition matched :: "string \<Rightarrow> string list" where
  "matched T = filter (\<lambda>k. str_in (lower k) T) luxury_keywords"

definition with_bonus :: "nat \<Rightarrow> real \<Rightarrow> real" where
  "with_bonus n s = (let s = (if n > 2 then s * 1.2 else s) in if n > 4 then s * 1.4 else s)"

text \<open>
  The outcome of \<open>ET.fromstring\<close> on a decoded body, where \<open>decoded\<close> is the result
  of the decoding (the text, or the exception the decoding raised): the parse gives the
  root \<open>x\<close>, or the decoding or the parse raises \<open>e\<close>.
\<close>

definition parses_as :: "world \<Rightarrow> exn + string \<Rightarrow> xml \<Rightarrow> bool" where
  "parses_as w decoded x = (case decoded of Inl e \<Rightarrow> False | Inr s \<Rightarrow> ET_fromstring w s = Inr x)"

definition raises :: "world \<Rightarrow> exn + string \<Rightarrow> exn \<Rightarrow> bool" where
  "raises w decoded e = (case decoded of Inl e' \<Rightarrow> e' = e | Inr s \<Rightarrow> ET_fromstring w s = Inl e)"

text \<open>\<open>gzip.decompress(b).decode('utf-8')\<close>.\<close>

definition gunzip_utf8 :: "world \<Rightarrow> string \<Rightarrow> exn + string" where
  "gunzip_utf8 w b = (case gzip_decompress w b of Inl e \<Rightarrow> Inl e | Inr d \<Rightarrow> decode_utf8 w d)"

text \<open>The first candidate of each URL that is not in \<open>seen\<close>.\<close>

fun first_seen :: "string set \<Rightarrow> ArticleCandidate list \<Rightarrow> ArticleCandidate list" where
  "first_seen seen [] = []"
| "first_seen seen (c # cs) =
     (if url c \<in> seen then first_seen seen cs else c # first_seen (insert (url c) seen) cs)"

section \<open>Facts about strings\<close>

lemma starts_with_iff: "starts_with p t \<longleftrightarrow> (\<exists>q. t = p @ q)"
  by (induction p t rule: starts_with.induct) auto

lemma str_in_iff: "str_in s t \<longleftrightarrow> (\<exists>p q. t = p @ s @ q)"
proof (induction t)
  case Nil
  then show ?case by simp
next
  case (Cons c cs)
  show ?case
  proof
    assume "str_in s (c # cs)"
    then consider "starts_with s (c # cs)" | "str_in s cs" by auto
    then show "\<exists>p q. c # cs = p @ s @ q"
    proof cases
      case 1
      then obtain q where "c # cs = s @ q" by (auto simp: starts_with_iff)
      then have "c # cs = [] @ s @ q" by simp
      then show ?thesis by blast
    next
      case 2
      then obtain p q where "cs = p @ s @ q" using Cons.IH by blast
      then have "c # cs = (c # p) @ s @ q" by simp
      then show ?thesis by blast
    qed
  next
    assume "\<exists>p q. c # cs = p @ s @ q"
    then obtain p q where pq: "c # cs = p @ s @ q" by blast
    show "str_in s (c # cs)"
    proof (cases p)
      case Nil
      with pq have "starts_with s (c # cs)" by (simp add: starts_with_iff)
      then show ?thesis by simp
    next
      case (Cons d p')
      with pq have "cs = p' @ s @ q" by simp
      then have "str_in s cs" using Cons.IH by blast
      then show ?thesis by simp
    qed
  qed
qed

lemma lower_append: "lower (a @ b) = lower a @ lower b"
  by (simp add: lower_def)

lemma lower_slashes: "lower (replicate n (CHR ''/'')) = replicate n (CHR ''/'')"
  by (simp add: lower_def lower_char_def)

lemma rstrip_slash_decomp: "\<exists>n. s = rstrip_slash s @ replicate n (CHR ''/'')"
proof -
  let ?sl = "\<lambda>c. c = CHR ''/''"
  have "takeWhile ?sl (rev s) = replicate (length (takeWhile ?sl (rev s))) (CHR ''/'')"
    by (rule replicate_length_same[symmetric]) (auto dest: set_takeWhileD)
  moreover have "rev s = takeWhile ?sl (rev s) @ dropWhile ?sl (rev s)"
    by simp
  ultimately have "rev s = replicate (length (takeWhile ?sl (rev s))) (CHR ''/'')
       @ dropWhile ?sl (rev s)"
    by simp
  then have "rev (rev s) = rev (replicate (length (takeWhile ?sl (rev s))) (CHR ''/'')
       @ dropWhile ?sl (rev s))"
    by simp
  then have "s = rstrip_slash s @ replicate (length (takeWhile ?sl (rev s))) (CHR ''/'')"
    by (simp add: rstrip_slash_def)
  then show ?thesis by blast
qed

lemma rstrip_slash_idem: "rstrip_slash (rstrip_slash s) = rstrip_slash s"
proof -
  have "dropWhile (\<lambda>c. c = CHR ''/'') (dropWhile (\<lambda>c. c = CHR ''/'') (rev s))
          = dropWhile (\<lambda>c. c = CHR ''/'') (rev s)"
    by simp
  then show ?thesis by (simp add: rstrip_slash_def)
qed

text \<open>An occurrence of a non-empty string without slashes in \<open>b\<close> followed by slashes
  lies inside \<open>b\<close>.\<close>

lemma occurs_before_slashes:
  assumes "k \<noteq> []" and "CHR ''/'' \<notin> set k"
  shows "p @ k @ q = b @ replicate n (CHR ''/'') \<Longrightarrow> \<exists>q'. b = p @ k @ q'"
proof (induction n arbitrary: q)
  case 0
  then show ?case by auto
next
  case (Suc n)
  have eq: "p @ k @ q = (b @ replicate n (CHR ''/'')) @ [CHR ''/'']"
    using Suc.prems by (simp add: replicate_append_same)
  show ?case
  proof (cases q rule: rev_cases)
    case Nil
    with eq have "last (p @ k) = CHR ''/''"
      by (metis append.assoc append_Nil2 last_snoc)
    with assms have False by (metis last_appendR last_in_set)
    then show ?thesis ..
  next
    case (snoc q0 c)
    with eq have "(p @ k @ q0) @ [c] = (b @ replicate n (CHR ''/'')) @ [CHR ''/'']" by simp
    then have "p @ k @ q0 = b @ replicate n (CHR ''/'')" by (simp only: append1_eq_conv)
    then show ?thesis by (rule Suc.IH)
  qed
qed

section \<open>The Stage 2 score\<close>

lemma score_fold:
  "foldl (score_step T) (f, s) kws =
     (f @ filter (\<lambda>k. str_in (lower k) T) kws,
      s + sum_list (map (\<lambda>k. keyword_weight (lower k)) (filter (\<lambda>k. str_in (lower k) T) kws)))"
  by (induction kws arbitrary: f s) auto

lemma score_loop_eq:
  "score_loop T = (matched T, sum_list (map (\<lambda>k. keyword_weight (lower k)) (matched T)))"
  by (simp add: score_loop_def score_fold matched_def)

lemma calculate_relevance_score_eq:
  "calculate_relevance_score t c =
     (with_bonus (length (matched (lower (join_space t c))))
        (sum_list (map (\<lambda>k. keyword_weight (lower k)) (matched (lower (join_space t c))))),
      matched (lower (join_space t c)))"
  by (simp add: calculate_relevance_score_def score_loop_eq with_bonus_def Let_def)

lemma keyword_weight_pos: "0 < keyword_weight kl"
  by (simp add: keyword_weight_def)

lemma sum_weights_nonneg: "0 \<le> sum_list (map (\<lambda>k. keyword_weight (lower k)) ks)"
  by (rule sum_list_nonneg) (auto simp: less_imp_le[OF keyword_weight_pos])

lemma filter_mono_length:
  "\<forall>x\<in>set xs. P x \<longrightarrow> Q x \<Longrightarrow> length (filter P xs) \<le> length (filter Q xs)"
  by (induction xs) auto

lemma filter_mono_sum:
  "\<forall>x\<in>set xs. P x \<longrightarrow> Q x \<Longrightarrow> \<forall>x. 0 \<le> (wt x :: real) \<Longrightarrow>
   sum_list (map wt (filter P xs)) \<le> sum_list (map wt (filter Q xs))"
proof (induction xs)
  case Nil
  then show ?case by simp
next
  case (Cons x xs)
  then have IH: "sum_list (map wt (filter P xs)) \<le> sum_list (map wt (filter Q xs))" by simp
  have "0 \<le> wt x" using Cons.prems by simp
  with IH Cons.prems(1) show ?case by auto
qed

lemma with_bonus_mono:
  "n \<le> m \<Longrightarrow> 0 \<le> s \<Longrightarrow> s \<le> t \<Longrightarrow> with_bonus n s \<le> with_bonus m t"
  by (auto simp: with_bonus_def Let_def)

lemma score_diamond: "calculate_relevance_score ''News'' ''a diamond'' = (5, [''diamond''])"
  by code_simp

lemma score_diamond_necklace:
  "calculate_relevance_score ''News'' ''a diamond necklace'' = (10, [''diamond'', ''necklace''])"
  by code_simp

text \<open>
  C1. For every title and every two contents: if every keyword matched for the first
  content is also matched for the second (the matched set only grows), then the Stage 2
  score of the second is at least the score of the first.
\<close>

theorem stage2_score_monotone:
  assumes "set (snd (calculate_relevance_score t c)) \<subseteq> set (snd (calculate_relevance_score t c'))"
  shows "fst (calculate_relevance_score t c) \<le> fst (calculate_relevance_score t c')"
proof -
  let ?T = "lower (join_space t c)" and ?T' = "lower (join_space t c')"
  let ?wt = "\<lambda>k. keyword_weight (lower k)"
  from assms have sub: "set (matched ?T) \<subseteq> set (matched ?T')"
    by (simp add: calculate_relevance_score_eq)
  have imp: "\<forall>k\<in>set luxury_keywords. str_in (lower k) ?T \<longrightarrow> str_in (lower k) ?T'"
    using sub by (auto simp: matched_def)
  have len: "length (matched ?T) \<le> length (matched ?T')"
    unfolding matched_def by (rule filter_mono_length[OF imp])
  have "\<forall>k. 0 \<le> ?wt k" by (simp add: less_imp_le[OF keyword_weight_pos])
  then have sum: "sum_list (map ?wt (matched ?T)) \<le> sum_list (map ?wt (matched ?T'))"
    unfolding matched_def by (rule filter_mono_sum[OF imp])
  show ?thesis
    by (simp add: calculate_relevance_score_eq with_bonus_mono[OF len sum_weights_nonneg sum])
qed

theorem stage2_score_monotone_witness:
  "set (snd (calculate_relevance_score ''News'' ''a diamond''))
     \<subseteq> set (snd (calculate_relevance_score ''News'' ''a diamond necklace''))
   \<and> fst (calculate_relevance_score ''News'' ''a diamond'')
     \<le> fst (calculate_relevance_score ''News'' ''a diamond necklace'')"
proof -
  have h: "set (snd (calculate_relevance_score ''News'' ''a diamond''))
     \<subseteq> set (snd (calculate_relevance_score ''News'' ''a diamond necklace''))"
    by (simp add: score_diamond score_diamond_necklace)
  show ?thesis using h stage2_score_monotone[OF h] by simp
qed




section \<open>Domain validation\<close>

lemma no_core_term_example:
  "\<not> is_luxury_relevant_content ''Style trends''
       ''fashion week collection launch and luxury style''"
  by code_simp

lemma no_core_term_example_score:
  "fst (calculate_relevance_score ''Style trends''
          ''fashion week collection launch and luxury style'') = 609 / 25"
  by code_simp

text \<open>
  C6. For every title and content, \<open>is_luxury_relevant_content\<close> returns true exactly
  when some term of the core list occurs as a substring of the lower-cased
  \<open>title + ' ' + content\<close>: false when no core term occurs, whatever else the text
  contains and whatever its Stage 2 score, and true when at least one occurs.
\<close>

theorem domain_validation_iff_core_term:
  "is_luxury_relevant_content t c \<longleftrightarrow>
     (\<exists>term\<in>set core_luxury_terms. \<exists>p q. lower (join_space t c) = p @ term @ q)"
  by (simp add: is_luxury_relevant_content_def Let_def list_ex_iff str_in_iff)

theorem domain_validation_iff_core_term_witness:
  "\<not> (\<exists>term\<in>set core_luxury_terms. \<exists>p q.
         lower (join_space ''Style trends'' ''fashion week collection launch and luxury style'')
           = p @ term @ q)
   \<and> \<not> is_luxury_relevant_content ''Style trends''
          ''fashion week collection launch and luxury style''
   \<and> 3 < fst (calculate_relevance_score ''Style trends''
                 ''fashion week collection launch and luxury style'')"
  using domain_validation_iff_core_term
          [of "''Style trends''" "''fashion week collection launch and luxury style''"]
        no_core_term_example
  by (simp add: no_core_term_example_score)

lemma ring_is_core: "''ring'' \<in> set core_luxury_terms"
  by code_simp

lemma spring_example:
  "is_luxury_relevant_content ''Weather report'' ''It rained during the spring''
   \<and> (\<forall>term\<in>set core_luxury_terms.
         str_in term (lower (join_space ''Weather report'' ''It rained during the spring''))
           \<longrightarrow> term = ''ring'')
   \<and> snd (calculate_relevance_score ''Weather report'' ''It rained during the spring'') = []"
  by code_simp

text \<open>
  C10. Every text whose lower-cased \<open>title + ' ' + content\<close> contains \<open>ring\<close> as a
  substring passes the domain validation. The title \<open>Weather report\<close> with the content
  \<open>It rained during the spring\<close> passes, although \<open>ring\<close> (inside \<open>during\<close> and
  \<open>spring\<close>) is the only core term that occurs in it and no configured keyword does.
\<close>

theorem ring_inside_word_passes_validation:
  "((\<exists>p q. lower (join_space t c) = p @ ''ring'' @ q) \<longrightarrow> is_luxury_relevant_content t c)
   \<and> is_luxury_relevant_content ''Weather report'' ''It rained during the spring''
   \<and> (\<forall>term\<in>set core_luxury_terms.
         str_in term (lower (join_space ''Weather report'' ''It rained during the spring''))
           \<longrightarrow> term = ''ring'')
   \<and> snd (calculate_relevance_score ''Weather report'' ''It rained during the spring'') = []"
proof -
  have "is_luxury_relevant_content t c" if "\<exists>p q. lower (join_space t c) = p @ ''ring'' @ q"
  proof -
    from that have "str_in ''ring'' (lower (join_space t c))" by (simp add: str_in_iff)
    with ring_is_core show ?thesis
      by (auto simp: is_luxury_relevant_content_def Let_def list_ex_iff)
  qed
  with spring_example show ?thesis by blast
qed

theorem ring_inside_word_passes_validation_witness:
  "(\<exists>p q. lower (join_space ''Tips'' ''Bring an umbrella'') = p @ ''ring'' @ q)
   \<and> is_luxury_relevant_content ''Tips'' ''Bring an umbrella''"
proof -
  have "lower (join_space ''Tips'' ''Bring an umbrella'') = ''tips b'' @ ''ring'' @ '' an umbrella''"
    by code_simp
  then have h: "\<exists>p q. lower (join_space ''Tips'' ''Bring an umbrella'') = p @ ''ring'' @ q"
    by blast
  show ?thesis
    using h ring_inside_word_passes_validation[of "''Tips''" "''Bring an umbrella''"] by blast
qed

section \<open>The URL filter\<close>

lemma keywords_no_slash:
  "\<forall>k\<in>set luxury_keywords. lower k \<noteq> [] \<and> CHR ''/'' \<notin> set (lower k)"
  by code_simp

lemma root_no_keyword:
  "\<forall>k\<in>set luxury_keywords. \<not> str_in (lower k) (lower ''https://nationaljeweler.com'')"
  by code_simp

lemma excluded_stripped:
  "\<forall>e\<in>set national_jeweler_excluded.
     rstrip_slash e = e \<or> rstrip_slash e = ''https://nationaljeweler.com''"
  by code_simp

text \<open>
  C7. Call a URL denylisted when, after the trailing slashes are removed on both sides, it
  equals an entry of the fixed denylist. \<open>is_relevant_url\<close> returns false for every
  denylisted URL, whatever keywords it contains, and for every other URL it returns true
  exactly when the lower-cased URL contains a lower-cased configured keyword as a substring.
  The same holds when denylisted is read as the test the code makes: the URL itself, or the
  URL without its trailing slashes, is an entry of the denylist.
\<close>

theorem is_relevant_url_denylist_then_keywords:
  "(is_relevant_url u \<longleftrightarrow>
     \<not> (\<exists>e\<in>set national_jeweler_excluded. rstrip_slash u = rstrip_slash e)
     \<and> (\<exists>k\<in>set luxury_keywords. \<exists>p q. lower u = p @ lower k @ q))
   \<and> (is_relevant_url u \<longleftrightarrow>
     \<not> (rstrip_slash u \<in> set national_jeweler_excluded \<or> u \<in> set national_jeweler_excluded)
     \<and> (\<exists>k\<in>set luxury_keywords. \<exists>p q. lower u = p @ lower k @ q))"
proof -
  let ?A = "rstrip_slash u \<in> set national_jeweler_excluded \<or> u \<in> set national_jeweler_excluded"
  let ?B = "\<exists>e\<in>set national_jeweler_excluded. rstrip_slash u = rstrip_slash e"
  let ?K = "\<exists>k\<in>set luxury_keywords. \<exists>p q. lower u = p @ lower k @ q"
  have code: "is_relevant_url u \<longleftrightarrow> \<not> ?A \<and> ?K"
    by (simp add: is_relevant_url_def Let_def list_ex_iff str_in_iff)
  have AB: "?B" if "?A"
    using that
  proof
    assume "rstrip_slash u \<in> set national_jeweler_excluded"
    moreover have "rstrip_slash u = rstrip_slash (rstrip_slash u)"
      by (simp add: rstrip_slash_idem)
    ultimately show ?B by blast
  next
    assume "u \<in> set national_jeweler_excluded"
    then show ?B by blast
  qed
  have BK: "\<not> ?K" if B: "?B" and nA: "\<not> ?A"
  proof
    assume ?K
    then obtain k p q where k: "k \<in> set luxury_keywords" and occ: "lower u = p @ lower k @ q"
      by blast
    from B obtain e where e: "e \<in> set national_jeweler_excluded"
      and eq: "rstrip_slash u = rstrip_slash e" by blast
    from e excluded_stripped
    have "rstrip_slash e = e \<or> rstrip_slash e = ''https://nationaljeweler.com''" by blast
    with eq e nA have stripped: "rstrip_slash u = ''https://nationaljeweler.com''" by auto
    obtain n where "u = rstrip_slash u @ replicate n (CHR ''/'')"
      using rstrip_slash_decomp by blast
    with stripped have "u = ''https://nationaljeweler.com'' @ replicate n (CHR ''/'')" by simp
    then have "lower u = lower ''https://nationaljeweler.com'' @ replicate n (CHR ''/'')"
      by (simp only: lower_append lower_slashes)
    with occ have "p @ lower k @ q = lower ''https://nationaljeweler.com'' @ replicate n (CHR ''/'')"
      by simp
    moreover from k keywords_no_slash have "lower k \<noteq> []" "CHR ''/'' \<notin> set (lower k)" by auto
    ultimately obtain q' where "lower ''https://nationaljeweler.com'' = p @ lower k @ q'"
      using occurs_before_slashes by blast
    then have "str_in (lower k) (lower ''https://nationaljeweler.com'')"
      unfolding str_in_iff by blast
    with k root_no_keyword show False by blast
  qed
  show ?thesis using code AB BK by blast
qed

lemma style_section_denylisted:
  "\<exists>e\<in>set national_jeweler_excluded.
     rstrip_slash ''https://nationaljeweler.com/style/'' = rstrip_slash e"
  by code_simp

lemma style_section_has_keyword:
  "str_in (lower ''style'') (lower ''https://nationaljeweler.com/style/'')
   \<and> ''style'' \<in> set luxury_keywords"
  by code_simp

theorem is_relevant_url_denylist_then_keywords_witness:
  "(\<exists>e\<in>set national_jeweler_excluded.
      rstrip_slash ''https://nationaljeweler.com/style/'' = rstrip_slash e)
   \<and> str_in (lower ''style'') (lower ''https://nationaljeweler.com/style/'')
   \<and> \<not> is_relevant_url ''https://nationaljeweler.com/style/''"
  using is_relevant_url_denylist_then_keywords[of "''https://nationaljeweler.com/style/''"]
        style_section_denylisted style_section_has_keyword
  by blast

section \<open>Deduplication\<close>

lemma dedup_fold:
  "foldl dedup_step (u, seen) cs = (u @ first_seen seen cs, seen \<union> url ` set cs)"
  by (induction cs arbitrary: u seen) auto

lemma remove_duplicates_eq: "remove_duplicates cs = first_seen {} cs"
  by (simp add: remove_duplicates_def dedup_fold)

lemma first_seen_urls: "url ` set (first_seen seen cs) = url ` set cs - seen"
  by (induction cs arbitrary: seen) auto

lemma first_seen_distinct: "distinct (map url (first_seen seen cs))"
proof (induction cs arbitrary: seen)
  case Nil
  then show ?case by simp
next
  case (Cons c cs)
  have "url c \<notin> url ` set (first_seen (insert (url c) seen) cs)"
    by (simp add: first_seen_urls)
  with Cons.IH show ?case by simp
qed

lemma first_seen_subseq: "subseq (first_seen seen cs) cs"
  by (induction cs arbitrary: seen) auto

lemma first_seen_find:
  "c \<in> set (first_seen seen cs) \<Longrightarrow> find (\<lambda>d. url d = url c) cs = Some c"
proof (induction cs arbitrary: seen)
  case Nil
  then show ?case by simp
next
  case (Cons c0 cs)
  show ?case
  proof (cases "url c0 \<in> seen")
    case True
    with Cons.prems have in_rest: "c \<in> set (first_seen seen cs)" by simp
    then have "url c \<in> url ` set cs - seen" using first_seen_urls by blast
    with True have "url c0 \<noteq> url c" by auto
    with Cons.IH[OF in_rest] show ?thesis by simp
  next
    case False
    with Cons.prems consider "c = c0" | "c \<in> set (first_seen (insert (url c0) seen) cs)"
      by auto
    then show ?thesis
    proof cases
      case 1
      then show ?thesis by simp
    next
      case 2
      then have "url c \<in> url ` set cs - insert (url c0) seen" using first_seen_urls by blast
      then have "url c0 \<noteq> url c" by auto
      with Cons.IH[OF 2] show ?thesis by simp
    qed
  qed
qed

text \<open>
  C5. For every merged candidate list, the list without duplicates has pairwise distinct
  URLs, has exactly the URLs of the merged list, is a subsequence of the merged list (the
  survivors keep their relative order), and each of its candidates is the first candidate
  of the merged list with that URL. The candidates \<open>collect_from_source\<close> returns are
  this list for the merged sitemap and feed candidates.
\<close>

theorem deduplication_keeps_first_seen:
  "distinct (map url (remove_duplicates all_candidates))
   \<and> set (map url (remove_duplicates all_candidates)) = set (map url all_candidates)
   \<and> subseq (remove_duplicates all_candidates) all_candidates
   \<and> (\<forall>c\<in>set (remove_duplicates all_candidates).
         find (\<lambda>d. url d = url c) all_candidates = Some c)
   \<and> fst (collect_from_source w p info) = remove_duplicates (fst (merged_candidates w p info))"
proof -
  have "set (map url (remove_duplicates all_candidates)) = set (map url all_candidates)"
    using first_seen_urls[of "{}" all_candidates] by (simp add: remove_duplicates_eq)
  moreover have "fst (collect_from_source w p info)
      = remove_duplicates (fst (merged_candidates w p info))"
    by (simp add: collect_from_source_def split_beta)
  ultimately show ?thesis
    by (simp add: remove_duplicates_eq first_seen_distinct first_seen_subseq first_seen_find)
qed

lemma remove_duplicates_example:
  "remove_duplicates [scored ''u1'' 1, scored ''u2'' 2, scored ''u1'' 3, scored ''u2'' 4]
     = [scored ''u1'' 1, scored ''u2'' 2]"
  by code_simp

theorem deduplication_keeps_first_seen_witness:
  "remove_duplicates [scored ''u1'' 1, scored ''u2'' 2, scored ''u1'' 3, scored ''u2'' 4]
     = [scored ''u1'' 1, scored ''u2'' 2]
   \<and> scored ''u1'' 1 \<in> set (remove_duplicates
         [scored ''u1'' 1, scored ''u2'' 2, scored ''u1'' 3, scored ''u2'' 4])
   \<and> find (\<lambda>d. url d = url (scored ''u1'' 1))
         [scored ''u1'' 1, scored ''u2'' 2, scored ''u1'' 3, scored ''u2'' 4]
       = Some (scored ''u1'' 1)
   \<and> distinct (map url (remove_duplicates
         [scored ''u1'' 1, scored ''u2'' 2, scored ''u1'' 3, scored ''u2'' 4]))"
proof -
  let ?L = "[scored ''u1'' 1, scored ''u2'' 2, scored ''u1'' 3, scored ''u2'' 4]"
  have h: "scored ''u1'' 1 \<in> set (remove_duplicates ?L)"
    by (simp add: remove_duplicates_example)
  note t = deduplication_keeps_first_seen[of ?L offline_world "''Example''" example_source]
  from t h have "find (\<lambda>d. url d = url (scored ''u1'' 1)) ?L = Some (scored ''u1'' 1)"
    by blast
  moreover from t have "distinct (map url (remove_duplicates ?L))" by blast
  ultimately show ?thesis using h remove_duplicates_example by blast
qed

section \<open>Selection of the top three\<close>

lemma py_sort_reverse_mset: "mset (py_sort_reverse key xs) = mset xs"
  by (simp add: py_sort_reverse_def)

lemma py_sort_reverse_sorted:
  "sorted_wrt (\<lambda>a b. key a \<ge> key b) (py_sort_reverse key xs)"
proof -
  have "sorted (map key (sort_key key (rev xs)))" by simp
  then have "sorted_wrt (\<lambda>a b. key a \<le> key b) (sort_key key (rev xs))"
    by (simp add: sorted_map)
  then show ?thesis by (simp add: py_sort_reverse_def sorted_wrt_rev)
qed

lemma py_sort_reverse_stable:
  "filter (\<lambda>x. key x = k) (py_sort_reverse key xs) = filter (\<lambda>x. key x = k) xs"
proof -
  have "filter (\<lambda>x. key x = k) (sort_key key (rev xs)) = filter (\<lambda>x. key x = k) (rev xs)"
    by (rule sort_key_stable)
  then show ?thesis by (simp add: py_sort_reverse_def rev_filter[symmetric])
qed

text \<open>
  C4. For every list of at least three scored candidates, the final selection has exactly
  three candidates; it is the first three of a descending stable sort of the list (a
  rearrangement of the list in descending score order in which candidates of equal score
  keep their order); every selected candidate scores at least as high as every candidate
  left out; and the selected candidates of any one score are the first candidates of that
  score in the list, in their order.
\<close>

theorem top_3_selection:
  assumes "3 \<le> length publication_articles"
  shows "length (final_selection publication_articles) = 3
    \<and> (\<exists>s. final_selection publication_articles = take 3 s
          \<and> mset s = mset publication_articles
          \<and> sorted_wrt (\<lambda>a b. relevance_score a \<ge> relevance_score b) s
          \<and> (\<forall>k. filter (\<lambda>c. relevance_score c = k) s
                   = filter (\<lambda>c. relevance_score c = k) publication_articles))
    \<and> (\<forall>a\<in>set (final_selection publication_articles).
         \<forall>b\<in>#(mset publication_articles - mset (final_selection publication_articles)).
           relevance_score b \<le> relevance_score a)
    \<and> (\<forall>k. prefix (filter (\<lambda>c. relevance_score c = k) (final_selection publication_articles))
                    (filter (\<lambda>c. relevance_score c = k) publication_articles))"
proof -
  define s where "s = py_sort_reverse relevance_score publication_articles"
  have sel: "final_selection publication_articles = take 3 s"
    by (simp add: final_selection_def s_def)
  have ms: "mset s = mset publication_articles"
    by (simp add: s_def py_sort_reverse_mset)
  have sorted: "sorted_wrt (\<lambda>a b. relevance_score a \<ge> relevance_score b) s"
    unfolding s_def by (rule py_sort_reverse_sorted)
  have stable: "filter (\<lambda>c. relevance_score c = k) s
                  = filter (\<lambda>c. relevance_score c = k) publication_articles" for k
    unfolding s_def by (rule py_sort_reverse_stable)
  have "length s = length publication_articles"
    using ms by (metis size_mset)
  with assms have len: "length (take 3 s) = 3" by simp
  have split: "s = take 3 s @ drop 3 s" by simp
  have "mset publication_articles = mset (take 3 s) + mset (drop 3 s)"
    using ms split by (metis mset_append)
  then have rest: "mset publication_articles - mset (take 3 s) = mset (drop 3 s)" by simp
  have "sorted_wrt (\<lambda>a b. relevance_score a \<ge> relevance_score b) (take 3 s @ drop 3 s)"
    using sorted by simp
  then have top: "\<forall>a\<in>set (take 3 s). \<forall>b\<in>set (drop 3 s). relevance_score b \<le> relevance_score a"
    unfolding sorted_wrt_append by blast
  have pre: "prefix (filter (\<lambda>c. relevance_score c = k) (take 3 s))
                    (filter (\<lambda>c. relevance_score c = k) publication_articles)" for k
  proof -
    have "filter (\<lambda>c. relevance_score c = k) s
      = filter (\<lambda>c. relevance_score c = k) (take 3 s) @ filter (\<lambda>c. relevance_score c = k) (drop 3 s)"
      by (metis split filter_append)
    then show ?thesis unfolding stable by (metis prefixI)
  qed
  from len sel have c1: "length (final_selection publication_articles) = 3" by simp
  have c2: "\<exists>s. final_selection publication_articles = take 3 s
          \<and> mset s = mset publication_articles
          \<and> sorted_wrt (\<lambda>a b. relevance_score a \<ge> relevance_score b) s
          \<and> (\<forall>k. filter (\<lambda>c. relevance_score c = k) s
                   = filter (\<lambda>c. relevance_score c = k) publication_articles)"
    using sel ms sorted stable by blast
  have c3: "\<forall>a\<in>set (final_selection publication_articles).
         \<forall>b\<in>#(mset publication_articles - mset (final_selection publication_articles)).
           relevance_score b \<le> relevance_score a"
    using top by (simp add: sel rest)
  have c4: "\<forall>k. prefix (filter (\<lambda>c. relevance_score c = k) (final_selection publication_articles))
                    (filter (\<lambda>c. relevance_score c = k) publication_articles)"
    using pre by (simp add: sel)
  from c1 c2 c3 c4 show ?thesis by blast
qed

lemma final_selection_example:
  "final_selection [scored ''a'' 2, scored ''b'' 5, scored ''c'' 2, scored ''d'' 5, scored ''e'' 1]
     = [scored ''b'' 5, scored ''d'' 5, scored ''a'' 2]"
  by code_simp

theorem top_3_selection_witness:
  "3 \<le> length [scored ''a'' 2, scored ''b'' 5, scored ''c'' 2, scored ''d'' 5, scored ''e'' 1]
   \<and> final_selection [scored ''a'' 2, scored ''b'' 5, scored ''c'' 2, scored ''d'' 5, scored ''e'' 1]
       = [scored ''b'' 5, scored ''d'' 5, scored ''a'' 2]
   \<and> length (final_selection
        [scored ''a'' 2, scored ''b'' 5, scored ''c'' 2, scored ''d'' 5, scored ''e'' 1]) = 3
   \<and> prefix (filter (\<lambda>c. relevance_score c = 2) (final_selection
        [scored ''a'' 2, scored ''b'' 5, scored ''c'' 2, scored ''d'' 5, scored ''e'' 1]))
       (filter (\<lambda>c. relevance_score c = 2)
        [scored ''a'' 2, scored ''b'' 5, scored ''c'' 2, scored ''d'' 5, scored ''e'' 1])"
proof -
  let ?L = "[scored ''a'' 2, scored ''b'' 5, scored ''c'' 2, scored ''d'' 5, scored ''e'' 1]"
  have h: "3 \<le> length ?L" by simp
  note t = top_3_selection[OF h]
  from t have "length (final_selection ?L) = 3" by blast
  moreover from t have "prefix (filter (\<lambda>c. relevance_score c = 2) (final_selection ?L))
       (filter (\<lambda>c. relevance_score c = 2) ?L)" by blast
  ultimately show ?thesis using h final_selection_example by blast
qed

section \<open>The decoding chain of the sitemap resolver\<close>

lemma strategy1_parses: "strategy1 w r = Inr x \<longleftrightarrow> parses_as w (rtext r) x"
  by (simp add: strategy1_def parses_as_def split: sum.splits)

lemma strategy1_raises: "strategy1 w r = Inl e \<longleftrightarrow> raises w (rtext r) e"
  by (simp add: strategy1_def raises_def split: sum.splits)

lemma strategy2_parses:
  "strategy2 w r = Inr x \<longleftrightarrow> parses_as w (decode_utf8 w (content r)) x"
  by (simp add: strategy2_def parses_as_def split: sum.splits)

lemma strategy2_raises:
  "strategy2 w r = Inl e \<longleftrightarrow> raises w (decode_utf8 w (content r)) e"
  by (simp add: strategy2_def raises_def split: sum.splits)

lemma strategy3_parses:
  "strategy3 w r = Inr x \<longleftrightarrow> parses_as w (decode_latin1 w (content r)) x"
  by (simp add: strategy3_def parses_as_def split: sum.splits)

lemma strategy3_raises:
  "strategy3 w r = Inl e \<longleftrightarrow> raises w (decode_latin1 w (content r)) e"
  by (simp add: strategy3_def raises_def split: sum.splits)

lemma strategy4_parses:
  "strategy4 w r = Inr x \<longleftrightarrow> parses_as w (gunzip_utf8 w (content r)) x"
  by (simp add: strategy4_def parses_as_def gunzip_utf8_def split: sum.splits)

lemma strategy4_raises:
  "strategy4 w r = Inl e \<longleftrightarrow> raises w (gunzip_utf8 w (content r)) e"
  by (simp add: strategy4_def raises_def gunzip_utf8_def split: sum.splits)

lemma fetch_sitemap_articles_ok:
  "make_request w (Some u) = Inr r \<Longrightarrow> status_code r = 200 \<Longrightarrow>
   fetch_sitemap_articles w p u =
     (case decode_root w r of
        Inl e \<Rightarrow> ([], [Sitemap_error e])
      | Inr None \<Rightarrow> ([], [Sitemap_cannot_parse])
      | Inr (Some x) \<Rightarrow> (candidates_of_root w p x, []))"
  by (simp add: fetch_sitemap_articles_def)

text \<open>
  The document that \<open>fetch_sitemap_articles\<close> itself requests, answered with status 200.
  The strategies are tried in the order transport-decoded text, UTF-8, ISO-8859-1, gzip
  then UTF-8, a strategy being left for the next when it raises \<open>ET.ParseError\<close> or
  \<open>UnicodeDecodeError\<close>; the first that parses gives the root from which the candidates
  are built. If the first three are left and the fourth raises anything, the result is the
  empty list with the message \<open>Sitemap error: Cannot parse XML\<close>. If one of the first three
  raises another exception, the result is the empty list with the message
  \<open>Sitemap error:\<close> and the exception. These cases are all there are.
\<close>

lemma top_level_decode_chain:
  assumes req: "make_request w (Some u) = Inr r" and ok: "status_code r = 200"
  shows
    "(\<forall>x. parses_as w (rtext r) x \<longrightarrow>
        fetch_sitemap_articles w p u = (candidates_of_root w p x, []))
   \<and> (\<forall>e1 x. raises w (rtext r) e1 \<and> caught e1
          \<and> parses_as w (decode_utf8 w (content r)) x \<longrightarrow>
        fetch_sitemap_articles w p u = (candidates_of_root w p x, []))
   \<and> (\<forall>e1 e2 x. raises w (rtext r) e1 \<and> caught e1
          \<and> raises w (decode_utf8 w (content r)) e2 \<and> caught e2
          \<and> parses_as w (decode_latin1 w (content r)) x \<longrightarrow>
        fetch_sitemap_articles w p u = (candidates_of_root w p x, []))
   \<and> (\<forall>e1 e2 e3 x. raises w (rtext r) e1 \<and> caught e1
          \<and> raises w (decode_utf8 w (content r)) e2 \<and> caught e2
          \<and> raises w (decode_latin1 w (content r)) e3 \<and> caught e3
          \<and> parses_as w (gunzip_utf8 w (content r)) x \<longrightarrow>
        fetch_sitemap_articles w p u = (candidates_of_root w p x, []))
   \<and> (\<forall>e1 e2 e3 e4. raises w (rtext r) e1 \<and> caught e1
          \<and> raises w (decode_utf8 w (content r)) e2 \<and> caught e2
          \<and> raises w (decode_latin1 w (content r)) e3 \<and> caught e3
          \<and> raises w (gunzip_utf8 w (content r)) e4 \<longrightarrow>
        fetch_sitemap_articles w p u = ([], [Sitemap_cannot_parse]))
   \<and> (\<forall>e1. raises w (rtext r) e1 \<and> \<not> caught e1 \<longrightarrow>
        fetch_sitemap_articles w p u = ([], [Sitemap_error e1]))
   \<and> (\<forall>e1 e2. raises w (rtext r) e1 \<and> caught e1
          \<and> raises w (decode_utf8 w (content r)) e2 \<and> \<not> caught e2 \<longrightarrow>
        fetch_sitemap_articles w p u = ([], [Sitemap_error e2]))
   \<and> (\<forall>e1 e2 e3. raises w (rtext r) e1 \<and> caught e1
          \<and> raises w (decode_utf8 w (content r)) e2 \<and> caught e2
          \<and> raises w (decode_latin1 w (content r)) e3 \<and> \<not> caught e3 \<longrightarrow>
        fetch_sitemap_articles w p u = ([], [Sitemap_error e3]))"
  unfolding strategy1_parses[symmetric] strategy1_raises[symmetric]
    strategy2_parses[symmetric] strategy2_raises[symmetric]
    strategy3_parses[symmetric] strategy3_raises[symmetric]
    strategy4_parses[symmetric] strategy4_raises[symmetric]
  by (simp add: fetch_sitemap_articles_ok[OF req ok] decode_root_def)

text \<open>In \<open>utf8_world\<close> the transport-decoded text raises \<open>ParseError\<close> and the UTF-8
  decoding parses: the candidates are those of the UTF-8-parsed url-set. In
  \<open>garbage_world\<close> all four strategies fail.\<close>

lemma utf8_world_example:
  "raises utf8_world (Inr ''misdecoded'') ParseError
   \<and> parses_as utf8_world (decode_utf8 utf8_world ''raw bytes'')
        (urlset_of [''https://example.com/jewellery/new-collection'',
                    ''https://example.com/sport/results''])
   \<and> map url (fst (fetch_sitemap_articles utf8_world ''Example''
                      ''https://example.com/sitemap.xml''))
        = [''https://example.com/jewellery/new-collection'']
   \<and> snd (fetch_sitemap_articles utf8_world ''Example'' ''https://example.com/sitemap.xml'') = []"
  by code_simp

lemma garbage_world_example:
  "raises garbage_world (Inr ''garbage'') ParseError
   \<and> raises garbage_world (decode_utf8 garbage_world ''garbage'') UnicodeDecodeError
   \<and> raises garbage_world (decode_latin1 garbage_world ''garbage'') ParseError
   \<and> raises garbage_world (gunzip_utf8 garbage_world ''garbage'') OtherError
   \<and> fetch_sitemap_articles garbage_world ''Example'' ''https://example.com/sitemap.xml''
        = ([], [Sitemap_cannot_parse])"
  by code_simp

text \<open>
  C3. In \<open>gzip_child_world\<close> the body of \<open>https://example.com/sitemap-1.xml.gz\<close> fails
  the first three strategies and parses under the fourth. Requested by
  \<open>fetch_sitemap_articles\<close> itself, it yields the page of the site and no message.
  Reached as the child of the sitemap index, the same body is parsed by
  \<open>fetch_urls_from_sitemap\<close> from its raw bytes only: it yields no URL, and the resolver
  returns no candidate and prints no error message.
\<close>

theorem child_sitemap_gets_no_decode_fallback:
  "make_request gzip_child_world (Some ''https://example.com/sitemap-1.xml.gz'')
     = Inr (ok_response ''gzip bytes'')
   \<and> raises gzip_child_world (rtext (ok_response ''gzip bytes'')) ParseError
   \<and> raises gzip_child_world
        (decode_utf8 gzip_child_world (content (ok_response ''gzip bytes''))) UnicodeDecodeError
   \<and> raises gzip_child_world
        (decode_latin1 gzip_child_world (content (ok_response ''gzip bytes''))) ParseError
   \<and> parses_as gzip_child_world
        (gunzip_utf8 gzip_child_world (content (ok_response ''gzip bytes'')))
        (urlset_of [''https://example.com/jewellery/diamond-ring''])
   \<and> map url (fst (fetch_sitemap_articles gzip_child_world ''Example''
                      ''https://example.com/sitemap-1.xml.gz''))
        = [''https://example.com/jewellery/diamond-ring'']
   \<and> snd (fetch_sitemap_articles gzip_child_world ''Example''
             ''https://example.com/sitemap-1.xml.gz'') = []
   \<and> ET_fromstring_bytes gzip_child_world ''gzip bytes'' = Inl ParseError
   \<and> fetch_urls_from_sitemap gzip_child_world (Some ''https://example.com/sitemap-1.xml.gz'') = []
   \<and> fetch_sitemap_articles gzip_child_world ''Example'' ''https://example.com/sitemap.xml''
        = ([], [])"
  by code_simp

section \<open>The content stage\<close>

lemma extract_full_content_Some_iff:
  "extract_full_content w c \<noteq> None \<longleftrightarrow>
     (\<exists>r html a. make_request w (Some (url c)) = Inr r \<and> status_code r = 200
        \<and> rtext r = Inr html \<and> parse_article w (url c) html = Inr a
        \<and> 150 \<le> length (art_text a))"
  by (auto simp: extract_full_content_def Let_def split_beta split: sum.splits)

lemma extract_full_content_enriched:
  assumes "make_request w (Some (url c)) = Inr r" and "status_code r = 200"
    and "rtext r = Inr html" and "parse_article w (url c) html = Inr a"
    and "150 \<le> length (art_text a)"
  shows "extract_full_content w c =
     Some (c\<lparr>title := (if title c = [] \<and> art_title a \<noteq> [] then art_title a else title c),
             summary := (if art_meta_description a \<noteq> []
                            \<and> length (art_meta_description a) > length (summary c)
                         then art_meta_description a else summary c),
             author := extract_author w a,
             relevance_score :=
               fst (calculate_relevance_score
                      (if title c = [] \<and> art_title a \<noteq> [] then art_title a else title c)
                      (art_text a)),
             keywords_found :=
               snd (calculate_relevance_score
                      (if title c = [] \<and> art_title a \<noteq> [] then art_title a else title c)
                      (art_text a)),
             full_content := art_text a\<rparr>)"
proof -
  from assms(5) have "art_text a \<noteq> []" by auto
  with assms show ?thesis
    by (simp add: extract_full_content_def Let_def split_beta)
qed

lemma extract_full_content_score:
  "extract_full_content w c = Some c' \<Longrightarrow>
     relevance_score c' = fst (calculate_relevance_score (title c') (full_content c'))"
  by (auto simp: extract_full_content_def Let_def split_beta split: sum.splits if_splits)

lemma take_max_downloads: "take (min (length xs) 100) xs = take 100 xs"
  by (cases "length xs \<le> 100") (simp_all add: min_def)

lemma final_selection_Nil: "final_selection [] = []"
  by (simp add: final_selection_def py_sort_reverse_def)

lemma collect_publication_selection:
  "fst (collect_publication w p info) =
     final_selection (List.map_filter (extract_full_content w)
                        (take 100 (fst (collect_from_source w p info))))"
  by (simp add: collect_publication_def Let_def split_beta take_max_downloads
        final_selection_Nil List.map_filter_simps)

lemma weather_candidate_fields:
  "url weather_candidate = ''https://example.com/style/weather''"
  "title weather_candidate = []"
  "summary weather_candidate = []"
  "relevance_score weather_candidate = 0"
  by (simp_all add: weather_candidate_def)

lemma weather_score:
  "calculate_relevance_score ''Weather'' (replicate 150 (CHR ''x'')) = (0, [])"
  by code_simp

lemma plain_world_candidates:
  "collect_from_source plain_world ''Example'' example_source = ([weather_candidate], [])"
  by code_simp

lemma plain_world_page:
  "make_request plain_world (Some (url c)) = Inr (ok_response ''page'')
   \<and> status_code (ok_response ''page'') = 200
   \<and> rtext (ok_response ''page'') = Inr ''page''
   \<and> parse_article plain_world (url c) ''page''
       = Inr \<lparr>art_text = replicate 150 (CHR ''x''), art_title = ''Weather'',
              art_meta_description = ''''\<rparr>
   \<and> 150 \<le> length (art_text \<lparr>art_text = replicate 150 (CHR ''x''), art_title = ''Weather'',
              art_meta_description = ''''\<rparr>)"
  if "url c = ''https://example.com/style/weather''"
  using that by (simp add: plain_world_def ok_response_def)

lemma plain_world_extract:
  "extract_full_content plain_world weather_candidate
     = Some (weather_candidate\<lparr>title := ''Weather'', full_content := replicate 150 (CHR ''x'')\<rparr>)"
proof -
  note pg = plain_world_page[OF weather_candidate_fields(1)]
  have "extract_full_content plain_world weather_candidate =
     Some (weather_candidate\<lparr>title := ''Weather'', summary := [], author := ''Unknown'',
             relevance_score := 0, keywords_found := [],
             full_content := replicate 150 (CHR ''x'')\<rparr>)"
    using extract_full_content_enriched[of plain_world weather_candidate "ok_response ''page''"
            "''page''" "\<lparr>art_text = replicate 150 (CHR ''x''), art_title = ''Weather'',
              art_meta_description = ''''\<rparr>"] pg
    by (simp add: weather_candidate_fields weather_score plain_world_def offline_world_def)
  then show ?thesis by (simp add: weather_candidate_def)
qed

lemma plain_world_run:
  "map (\<lambda>c. (url c, relevance_score c))
       (fst (collect_top_3_per_publication plain_world [(''Example'', example_source)] None))
     = [(''https://example.com/style/weather'', 0)]
   \<and> snd (collect_top_3_per_publication plain_world [(''Example'', example_source)] None)
     = [Stage3_found 1]"
  by (simp add: collect_top_3_per_publication_def collect_publication_def
        plain_world_candidates plain_world_extract List.map_filter_simps
        final_selection_def py_sort_reverse_def weather_candidate_fields)

text \<open>
  C8. \<open>extract_full_content\<close> returns a candidate exactly when the page is fetched
  with status 200, parsed, and its text has at least 150 characters. The candidate returned
  is then the given one enriched from the article: the article's text as full content, the
  article's title if the candidate had none, the Stage 2 score and the matched keywords of
  that title and text (whatever the score is), the resolved author, and the article's
  meta description as summary if it is longer. The selection of a publication is the top
  three of all candidates so extracted (of the first 100 collected). In \<open>plain_world\<close>
  the run returns a candidate with relevance score 0.0, and prints that it found 1 article
  with content score above 3.0.
\<close>

theorem content_stage_has_no_score_threshold:
  "(extract_full_content w c \<noteq> None \<longleftrightarrow>
      (\<exists>r html a. make_request w (Some (url c)) = Inr r \<and> status_code r = 200
         \<and> rtext r = Inr html \<and> parse_article w (url c) html = Inr a
         \<and> 150 \<le> length (art_text a)))
   \<and> (\<forall>r html a. make_request w (Some (url c)) = Inr r \<and> status_code r = 200
         \<and> rtext r = Inr html \<and> parse_article w (url c) html = Inr a
         \<and> 150 \<le> length (art_text a) \<longrightarrow>
       extract_full_content w c =
         Some (c\<lparr>title := (if title c = [] \<and> art_title a \<noteq> [] then art_title a else title c),
                 summary := (if art_meta_description a \<noteq> []
                                \<and> length (art_meta_description a) > length (summary c)
                             then art_meta_description a else summary c),
                 author := extract_author w a,
                 relevance_score :=
                   fst (calculate_relevance_score
                          (if title c = [] \<and> art_title a \<noteq> [] then art_title a else title c)
                          (art_text a)),
                 keywords_found :=
                   snd (calculate_relevance_score
                          (if title c = [] \<and> art_title a \<noteq> [] then art_title a else title c)
                          (art_text a)),
                 full_content := art_text a\<rparr>))
   \<and> (\<forall>c'. extract_full_content w c = Some c' \<longrightarrow>
         relevance_score c' = fst (calculate_relevance_score (title c') (full_content c')))
   \<and> fst (collect_publication w p info) =
       final_selection (List.map_filter (extract_full_content w)
                          (take 100 (fst (collect_from_source w p info))))
   \<and> map (\<lambda>c. (url c, relevance_score c))
        (fst (collect_top_3_per_publication plain_world [(''Example'', example_source)] None))
       = [(''https://example.com/style/weather'', 0.0)]
   \<and> snd (collect_top_3_per_publication plain_world [(''Example'', example_source)] None)
       = [Stage3_found 1]"
  using extract_full_content_Some_iff[of w c] extract_full_content_enriched[of w c]
    extract_full_content_score[of w c] collect_publication_selection[of w p info]
    plain_world_run
  by simp

text \<open>In \<open>plain_world\<close>, a candidate that arrives with the title score 7 and a summary
  leaves the content stage with the article's title and text and with the Stage 2 score 0.\<close>

theorem content_stage_has_no_score_threshold_witness:
  "make_request plain_world (Some (url (weather_candidate\<lparr>summary := ''Rain'', relevance_score := 7\<rparr>)))
      = Inr (ok_response ''page'')
   \<and> status_code (ok_response ''page'') = 200
   \<and> rtext (ok_response ''page'') = Inr ''page''
   \<and> parse_article plain_world
        (url (weather_candidate\<lparr>summary := ''Rain'', relevance_score := 7\<rparr>)) ''page''
       = Inr \<lparr>art_text = replicate 150 (CHR ''x''), art_title = ''Weather'',
              art_meta_description = ''''\<rparr>
   \<and> extract_full_content plain_world
        (weather_candidate\<lparr>summary := ''Rain'', relevance_score := 7\<rparr>)
       = Some (weather_candidate\<lparr>title := ''Weather'', summary := ''Rain'',
                 author := ''Unknown'', relevance_score := 0, keywords_found := [],
                 full_content := replicate 150 (CHR ''x'')\<rparr>)"
proof -
  let ?c = "weather_candidate\<lparr>summary := ''Rain'', relevance_score := 7\<rparr>"
  let ?a = "\<lparr>art_text = replicate 150 (CHR ''x''), art_title = ''Weather'',
              art_meta_description = ''''\<rparr>"
  have u: "url ?c = ''https://example.com/style/weather''"
    by (simp add: weather_candidate_fields)
  note pg = plain_world_page[OF u]
  note t = content_stage_has_no_score_threshold[of plain_world ?c "''Example''" example_source]
  from t pg have "extract_full_content plain_world ?c =
         Some (?c\<lparr>title := (if title ?c = [] \<and> art_title ?a \<noteq> [] then art_title ?a else title ?c),
                 summary := (if art_meta_description ?a \<noteq> []
                                \<and> length (art_meta_description ?a) > length (summary ?c)
                             then art_meta_description ?a else summary ?c),
                 author := extract_author plain_world ?a,
                 relevance_score :=
                   fst (calculate_relevance_score
                          (if title ?c = [] \<and> art_title ?a \<noteq> [] then art_title ?a else title ?c)
                          (art_text ?a)),
                 keywords_found :=
                   snd (calculate_relevance_score
                          (if title ?c = [] \<and> art_title ?a \<noteq> [] then art_title ?a else title ?c)
                          (art_text ?a)),
                 full_content := art_text ?a\<rparr>)"
    by blast
  then have "extract_full_content plain_world ?c
       = Some (weather_candidate\<lparr>title := ''Weather'', summary := ''Rain'',
                 author := ''Unknown'', relevance_score := 0, keywords_found := [],
                 full_content := replicate 150 (CHR ''x'')\<rparr>)"
    by (simp add: weather_candidate_fields weather_score plain_world_def offline_world_def)
  with pg show ?thesis by blast
qed

section \<open>Nested sitemap indexes\<close>

text \<open>An index whose children are url-sets is flattened: the URLs of the children, in
  order. With two children of five URLs each the resolver has ten pairs.\<close>

lemma find_loc_of: "find_descendant loc_tag (Element t x [loc_of u]) = Some (loc_of u)"
  by (simp add: find_descendant_def loc_of_def)

lemma index_tag:
  "str_in ''sitemapindex'' ''{http://www.sitemaps.org/schemas/sitemap/0.9}sitemapindex''"
  by code_simp

lemma sitemap_index_one_level:
  "sitemap_urls w (index_of us) = concat (map (\<lambda>u. fetch_urls_from_sitemap w (Some u)) us)"
  by (simp add: sitemap_urls_def index_of_def index_tag find_loc_of comp_def)
    (simp add: loc_of_def)

lemma sitemap_index_two_children:
  assumes "length (fetch_urls_from_sitemap w (Some u1)) = 5"
    and "length (fetch_urls_from_sitemap w (Some u2)) = 5"
  shows "sitemap_urls w (index_of [u1, u2])
           = fetch_urls_from_sitemap w (Some u1) @ fetch_urls_from_sitemap w (Some u2)
         \<and> length (sitemap_urls w (index_of [u1, u2])) = 10"
  using assms by (simp add: sitemap_index_one_level)

text \<open>
  C2. In \<open>nested_world\<close> the sitemap index refers to a second index, which refers to
  the url-set with the page \<open>https://example.com/jewellery/diamond-ring\<close>. The resolver
  does not expand the second index: its list of URLs holds the location of the url-set
  document, and that location, not the page, becomes the candidate.
\<close>

theorem nested_sitemap_index_is_not_expanded:
  "sitemap_urls nested_world (index_of [''https://example.com/sitemap-jewellery.xml''])
     = [(Some ''https://example.com/sitemap-jewellery-1.xml'', 1000)]
   \<and> fetch_urls_from_sitemap nested_world (Some ''https://example.com/sitemap-jewellery-1.xml'')
     = [(Some ''https://example.com/jewellery/diamond-ring'', 1000)]
   \<and> map url (fst (fetch_sitemap_articles nested_world ''Example''
                      ''https://example.com/sitemap.xml''))
     = [''https://example.com/sitemap-jewellery-1.xml'']"
  by code_simp

end
